theory Spec2Isabelle
  imports Main
begin

section \<open>Python values used by the Gmail client\<close>

text \<open>
  Python strings are modelled as \<^typ>\<open>string\<close>: one \<^typ>\<open>char\<close> stands for one
  character of the Python string.  \<open>Optional[str]\<close> is \<^typ>\<open>string option\<close>,
  with \<open>None\<close> for Python's \<open>None\<close>.  Output written with \<open>print\<close> is not modelled.
\<close>

text \<open>
  The exceptions the code can raise.  \<open>ValueError_keys m ks\<close> is a \<open>ValueError\<close> whose
  message is \<open>m\<close> followed by the printed list \<open>ks\<close>; \<open>External m\<close> is any exception
  raised inside a library or a remote service (requests, google-auth, the Google API
  client, base64, codecs).  Where Python 3.12 raises \<open>KeyError\<close> for slicing a dict and
  older versions \<open>TypeError\<close>, the model has \<open>TypeError\<close>.
\<close>

datatype error =
    ValueError string
  | ValueError_keys string "string list"
  | KeyError string
  | TypeError
  | AttributeError
  | External string

text \<open>Truth value of an \<open>Optional[str]\<close> in \<open>if x:\<close>: neither \<open>None\<close> nor the empty string.\<close>

definition truthy_str :: "string option \<Rightarrow> bool" where
  "truthy_str x = (case x of None \<Rightarrow> False | Some s \<Rightarrow> s \<noteq> [])"

text \<open>\<open>sep.join(xs)\<close>.\<close>

fun str_join :: "string \<Rightarrow> string list \<Rightarrow> string" where
  "str_join sep [] = []"
| "str_join sep [x] = x"
| "str_join sep (x # y # ys) = x @ sep @ str_join sep (y # ys)"

text \<open>\<open>s.replace(old, new)\<close> for a non-empty \<open>old\<close>: its occurrences from left to right, not overlapping.\<close>

function str_replace :: "string \<Rightarrow> string \<Rightarrow> string \<Rightarrow> string" where
  "str_replace old new s =
     (if old = [] \<or> s = [] then s
      else if take (length old) s = old then new @ str_replace old new (drop (length old) s)
      else hd s # str_replace old new (tl s))"
  by pat_completeness auto
termination
  by (relation "measure (\<lambda>(old, new, s). length s)") auto

declare str_replace.simps [simp del]

text \<open>\<open>s.upper()\<close> and \<open>s.lower()\<close> on the letters a to z; other characters are kept.\<close>

definition upper_char :: "char \<Rightarrow> char" where
  "upper_char c =
     (case map_of (zip ''abcdefghijklmnopqrstuvwxyz'' ''ABCDEFGHIJKLMNOPQRSTUVWXYZ'') c of
        None \<Rightarrow> c | Some u \<Rightarrow> u)"

definition lower_char :: "char \<Rightarrow> char" where
  "lower_char c =
     (case map_of (zip ''ABCDEFGHIJKLMNOPQRSTUVWXYZ'' ''abcdefghijklmnopqrstuvwxyz'') c of
        None \<Rightarrow> c | Some l \<Rightarrow> l)"

text \<open>\<open>needle in s\<close> for two strings.\<close>

fun str_contains :: "string \<Rightarrow> string \<Rightarrow> bool" where
  "str_contains [] needle = (needle = [])"
| "str_contains (c # cs) needle =
     (take (length needle) (c # cs) = needle \<or> str_contains cs needle)"

text \<open>\<open>str(n)\<close> for a count \<open>n\<close>.\<close>

function str_nat :: "nat \<Rightarrow> string" where
  "str_nat n =
     (if n < 10 then [''0123456789'' ! n]
      else str_nat (n div 10) @ [''0123456789'' ! (n mod 10)])"
  by pat_completeness auto
termination
  by (relation "measure id") auto

declare str_nat.simps [simp del]

text \<open>
  A value decoded from JSON.  A dict is the list of its items, read with \<open>map_of\<close>;
  \<open>JNull\<close> is Python's \<open>None\<close>.  A number is kept as an integer: the code only tests
  numbers for truth.
\<close>

datatype json =
    JNull
  | JBool bool
  | JNum int
  | JStr string
  | JArr "json list"
  | JObj "(string \<times> json) list"

text \<open>The truth value of a Python object in \<open>if not x\<close>.\<close>

fun truthy :: "json \<Rightarrow> bool" where
  "truthy JNull = False"
| "truthy (JBool b) = b"
| "truthy (JNum n) = (n \<noteq> 0)"
| "truthy (JStr s) = (s \<noteq> [])"
| "truthy (JArr xs) = (xs \<noteq> [])"
| "truthy (JObj kvs) = (kvs \<noteq> [])"

text \<open>\<open>k in d\<close>, \<open>d.get(k)\<close> and \<open>list(d.keys())\<close> for a dict \<open>d\<close>.\<close>

definition has_key :: "(string \<times> json) list \<Rightarrow> string \<Rightarrow> bool" where
  "has_key d k = (map_of d k \<noteq> None)"

definition dict_get :: "(string \<times> json) list \<Rightarrow> string \<Rightarrow> json" where
  "dict_get d k = (case map_of d k of None \<Rightarrow> JNull | Some v \<Rightarrow> v)"

definition dict_keys :: "(string \<times> json) list \<Rightarrow> string list" where
  "dict_keys d = remdups (map fst d)"

text \<open>
  Whether \<open>x[:20]\<close> evaluates: strings and lists can be sliced, a number, a boolean and
  a dict cannot (a truthy \<open>x\<close> is never \<open>None\<close>).
\<close>

fun sliceable :: "json \<Rightarrow> bool" where
  "sliceable (JStr s) = True"
| "sliceable (JArr xs) = True"
| "sliceable x = False"

section \<open>The external collaborators\<close>

text \<open>
  The remote services change state that the program does not own.  That state is a
  value of an arbitrary type \<open>'w\<close>, passed to every external call and returned by it.
\<close>

subsection \<open>The mail service API\<close>

text \<open>
  A message part as the API documents it, with the keys the code reads: every part has
  its \<open>mimeType\<close>; \<open>headers\<close>, \<open>body\<close>, the \<open>data\<close> of a body and \<open>parts\<close>
  are optional.  A header is the pair of its \<open>name\<close> and \<open>value\<close>.
\<close>

record part_body =
  data :: "string option"

datatype part =
  Part (mimeType: string) (headers: "(string \<times> string) list option")
    (body: "part_body option") (parts: "part list option")

text \<open>
  A message part as the code can receive it, a dict in which every key may be missing,
  \<open>mimeType\<close> too: the code reads it by subscript (\<open>part['mimeType']\<close>), which
  raises \<open>KeyError\<close> on a part without that key.
\<close>

datatype api_part =
  ApiPart (api_mimeType: "string option") (api_headers: "(string \<times> string) list option")
    (api_body: "part_body option") (api_parts: "api_part list option")

text \<open>The message dict as \<open>get_message_body\<close> reads it: only the key \<open>payload\<close>.\<close>

record api_message =
  api_payload :: "api_part option"

text \<open>
  A message: every key the code reads is optional, and \<open>other_keys\<close> are the names
  of the keys it does not read; the record with no key at all is the empty dict.
  \<open>msg_id\<close> is the key \<open>id\<close>.
\<close>

record message =
  msg_id :: "string option"
  threadId :: "string option"
  labelIds :: "string list option"
  snippet :: "string option"
  payload :: "part option"
  other_keys :: "string list"

text \<open>An entry of the \<open>messages\<close> list of a list response; the code reads \<open>msg['id']\<close>.\<close>

record msg_ref =
  ref_id :: string

record list_result =
  messages :: "msg_ref list option"

text \<open>
  The result of a send request, of which the code reads \<open>send_message["id"]\<close>, and
  the result of the profile request.
\<close>

record send_result =
  sent_id :: "string option"

record profile =
  emailAddress :: "string option"
  messagesTotal :: "int option"
  threadsTotal :: "int option"
  historyId :: "string option"

text \<open>
  The service object returned by \<open>build('gmail', 'v1', ...)\<close>: each field is one
  request followed by \<open>execute()\<close>, which returns a result or raises.  \<open>messages_list\<close>
  takes \<open>q\<close> and \<open>maxResults\<close>, \<open>messages_modify\<close> the id and \<open>removeLabelIds\<close>,
  \<open>messages_send\<close> the \<open>raw\<close> string of the request body.
\<close>

record 'w service =
  messages_list :: "'w \<Rightarrow> string \<Rightarrow> int \<Rightarrow> (error + list_result) \<times> 'w"
  messages_get :: "'w \<Rightarrow> string \<Rightarrow> (error + message) \<times> 'w"
  messages_modify :: "'w \<Rightarrow> string \<Rightarrow> string list \<Rightarrow> (error + unit) \<times> 'w"
  messages_delete :: "'w \<Rightarrow> string \<Rightarrow> (error + unit) \<times> 'w"
  messages_send :: "'w \<Rightarrow> string \<Rightarrow> (error + send_result) \<times> 'w"
  getProfile :: "'w \<Rightarrow> (error + profile) \<times> 'w"

subsection \<open>The broker, the credential library and the environment\<close>

record http_request =
  req_url :: string
  req_headers :: "(string \<times> string) list"
  req_params :: "(string \<times> string) list"

text \<open>The arguments given to \<open>Credentials(...)\<close>.\<close>

record credentials =
  token :: json
  refresh_token :: json
  token_uri :: string
  client_id :: json
  client_secret :: json
  scopes :: "string list"

text \<open>
  \<open>environ\<close> is the process environment after \<open>load_dotenv()\<close>;
  \<open>http_get_json\<close> is \<open>requests.get\<close> followed by \<open>raise_for_status()\<close> and
  \<open>json()\<close>; \<open>creds_valid\<close> is the property \<open>creds.valid\<close>; \<open>creds_refresh\<close> is
  \<open>creds.refresh(Request())\<close>, which updates the credential; \<open>build\<close> is
  \<open>build('gmail', 'v1', credentials=creds)\<close>; \<open>b64_utf8_decode\<close> is
  \<open>base64.urlsafe_b64decode(data).decode('utf-8')\<close>.  \<open>mime_text\<close> is the
  construction of \<open>MIMEText(body)\<close> with the headers \<open>to\<close> and \<open>subject\<close>,
  followed by \<open>as_bytes()\<close> and \<open>urlsafe_b64encode\<close>; \<open>mime_multipart\<close> is the
  same for the \<open>MIMEMultipart\<close> message with the body and the attachment, whose
  arguments are \<open>to\<close>, \<open>subject\<close>, \<open>body\<close>, the file path and the bytes of the
  file; \<open>path_exists\<close> is \<open>os.path.exists\<close> and \<open>read_file\<close> opens and reads the
  file.
\<close>

record 'w externals =
  environ :: "string \<rightharpoonup> string"
  http_get_json :: "'w \<Rightarrow> http_request \<Rightarrow> (error + json) \<times> 'w"
  creds_valid :: "'w \<Rightarrow> credentials \<Rightarrow> bool"
  creds_refresh :: "'w \<Rightarrow> credentials \<Rightarrow> (error + credentials) \<times> 'w"
  build :: "'w \<Rightarrow> credentials \<Rightarrow> (error + 'w service) \<times> 'w"
  b64_utf8_decode :: "string \<Rightarrow> error + string"
  mime_text :: "string \<Rightarrow> string \<Rightarrow> string \<Rightarrow> error + string"
  mime_multipart :: "string \<Rightarrow> string \<Rightarrow> string \<Rightarrow> string \<Rightarrow> string \<Rightarrow> error + string"
  path_exists :: "'w \<Rightarrow> string \<Rightarrow> bool"
  read_file :: "'w \<Rightarrow> string \<Rightarrow> error + string"

section \<open>gmail\_auth.py\<close>

definition SCOPES :: "string list" where
  "SCOPES = [''https://www.googleapis.com/auth/gmail.readonly'']"

definition get_variable :: "(string \<rightharpoonup> string) \<Rightarrow> string \<Rightarrow> error + string" where
  "get_variable env key =
     (let env_key = map upper_char (str_replace ''/'' ''_'' (str_replace ''f/secrets/'' [] key));
          val = env env_key
      in if \<not> truthy_str val
         then Inl (ValueError (''Environment variable '' @ env_key @
                     '' not found. Please check your .env file.''))
         else Inr (the val))"

definition get_connection_credentials ::
  "'w externals \<Rightarrow> 'w \<Rightarrow> string \<Rightarrow> string \<Rightarrow> (error + json) \<times> 'w" where
  "get_connection_credentials X w conn_id providerConfigKey =
     (case get_variable (environ X) ''f/secrets/nango/nango_base_url'' of
        Inl e \<Rightarrow> (Inl e, w)
      | Inr base_url \<Rightarrow>
          (case get_variable (environ X) ''f/secrets/nango/nango_secret_key'' of
             Inl e \<Rightarrow> (Inl e, w)
           | Inr secret_key \<Rightarrow>
               http_get_json X w
                 \<lparr>req_url = base_url @ ''/connection/'' @ conn_id,
                  req_headers = [(''Authorization'', ''Bearer '' @ secret_key)],
                  req_params = [(''provider_config_key'', providerConfigKey),
                                (''refresh_token'', ''true'')]\<rparr>))"

text \<open>
  \<open>create_credentials_from_nango\<close> (lines 43 to 70): the dict under \<open>credentials\<close> when
  the response has that key, the response itself otherwise; \<open>get\<close> on a value that is
  not a dict raises \<open>AttributeError\<close>.
\<close>

definition create_credentials_from_nango :: "json \<Rightarrow> error + credentials" where
  "create_credentials_from_nango nango_response =
     (case nango_response of
        JObj d \<Rightarrow>
          (case (case map_of d ''credentials'' of None \<Rightarrow> nango_response | Some c \<Rightarrow> c) of
             JObj credentials_data \<Rightarrow>
               (let access_token = dict_get credentials_data ''access_token''
                in if \<not> truthy access_token
                   then Inl (ValueError ''No access_token found in Nango response'')
                   else Inr \<lparr>token = access_token,
                             refresh_token = dict_get credentials_data ''refresh_token'',
                             token_uri = ''https://oauth2.googleapis.com/token'',
                             client_id = dict_get credentials_data ''client_id'',
                             client_secret = dict_get credentials_data ''client_secret'',
                             scopes = SCOPES\<rparr>)
           | _ \<Rightarrow> Inl AttributeError)
      | _ \<Rightarrow> Inl AttributeError)"

text \<open>
  \<open>authenticate_gmail_with_nango\<close> (lines 72 to 99).  Both \<open>except\<close> clauses print
  and raise the exception again.
\<close>

definition authenticate_gmail_with_nango ::
  "'w externals \<Rightarrow> 'w \<Rightarrow> string \<Rightarrow> string \<Rightarrow> (error + 'w service) \<times> 'w" where
  "authenticate_gmail_with_nango X w connection_id provider_config_key =
     (case get_connection_credentials X w connection_id provider_config_key of
        (Inl e, w1) \<Rightarrow> (Inl e, w1)
      | (Inr nango_response, w1) \<Rightarrow>
          (case create_credentials_from_nango nango_response of
             Inl e \<Rightarrow> (Inl e, w1)
           | Inr creds \<Rightarrow>
               (case (if \<not> creds_valid X w1 creds \<and> truthy (refresh_token creds)
                      then creds_refresh X w1 creds else (Inr creds, w1)) of
                  (Inl e, w2) \<Rightarrow> (Inl e, w2)
                | (Inr creds', w2) \<Rightarrow> build X w2 creds')))"

text \<open>
  \<open>authenticate_gmail_with_nango_v2\<close>, lines 113 to 126: the \<open>if\<close>/\<open>elif\<close> chain
  that sets \<open>access_token\<close> and \<open>refresh_token\<close>, both \<open>None\<close> before it.
\<close>

definition select_tokens_v2 :: "(string \<times> json) list \<Rightarrow> error + json \<times> json" where
  "select_tokens_v2 nango_response =
     (if has_key nango_response ''access_token''
      then Inr (the (map_of nango_response ''access_token''),
                dict_get nango_response ''refresh_token'')
      else if has_key nango_response ''credentials''
      then (case the (map_of nango_response ''credentials'') of
              JObj creds_data \<Rightarrow>
                Inr (dict_get creds_data ''access_token'', dict_get creds_data ''refresh_token'')
            | _ \<Rightarrow> Inl AttributeError)
      else if has_key nango_response ''token''
      then Inr (the (map_of nango_response ''token''),
                dict_get nango_response ''refresh_token'')
      else Inr (JNull, JNull))"

text \<open>
  Lines 128 to 141, once \<open>access_token\<close> and \<open>refresh_token\<close> are set: a token
  that is not truthy raises the \<open>ValueError\<close> naming the keys of the response; the
  \<open>print\<close> of \<open>access_token[:20]\<close> raises on a token that cannot be sliced; the token
  found is the \<open>token\<close> of the credential, which has no client id and no client secret.
\<close>

definition credential_of_tokens ::
  "(string \<times> json) list \<Rightarrow> json \<Rightarrow> json \<Rightarrow> error + credentials" where
  "credential_of_tokens d access_token refresh_tok =
     (if \<not> truthy access_token
      then Inl (ValueError_keys ''No access token found in Nango response. Available keys: ''
                  (dict_keys d))
      else if \<not> sliceable access_token then Inl TypeError
      else Inr \<lparr>token = access_token,
                refresh_token = refresh_tok,
                token_uri = ''https://oauth2.googleapis.com/token'',
                client_id = JNull,
                client_secret = JNull,
                scopes = SCOPES\<rparr>)"

text \<open>
  Lines 110 to 141: \<open>nango_response.keys()\<close> raises on a value that is not a dict.
\<close>

definition credentials_v2 :: "json \<Rightarrow> error + credentials" where
  "credentials_v2 nango_response =
     (case nango_response of
        JObj d \<Rightarrow>
          (case select_tokens_v2 d of
             Inl e \<Rightarrow> Inl e
           | Inr (access_token, refresh_tok) \<Rightarrow> credential_of_tokens d access_token refresh_tok)
      | _ \<Rightarrow> Inl AttributeError)"

text \<open>The body of the \<open>try\<close> statement of \<open>authenticate_gmail_with_nango_v2\<close>.\<close>

definition v2_try ::
  "'w externals \<Rightarrow> 'w \<Rightarrow> string \<Rightarrow> string \<Rightarrow> (error + 'w service) \<times> 'w" where
  "v2_try X w connection_id provider_config_key =
     (case get_connection_credentials X w connection_id provider_config_key of
        (Inl e, w1) \<Rightarrow> (Inl e, w1)
      | (Inr nango_response, w1) \<Rightarrow>
          (case credentials_v2 nango_response of
             Inl e \<Rightarrow> (Inl e, w1)
           | Inr creds \<Rightarrow> build X w1 creds))"

text \<open>
  \<open>authenticate_gmail_with_nango_v2\<close> (lines 102 to 157): on any exception the handler
  fetches the broker response once more to print it, whatever that call does, and raises
  the exception again.
\<close>

definition authenticate_gmail_with_nango_v2 ::
  "'w externals \<Rightarrow> 'w \<Rightarrow> string \<Rightarrow> string \<Rightarrow> (error + 'w service) \<times> 'w" where
  "authenticate_gmail_with_nango_v2 X w connection_id provider_config_key =
     (case v2_try X w connection_id provider_config_key of
        (Inl e, w1) \<Rightarrow>
          (Inl e, snd (get_connection_credentials X w1 connection_id provider_config_key))
      | (Inr svc, w1) \<Rightarrow> (Inr svc, w1))"

section \<open>gmail\_operations.py\<close>

text \<open>
  A \<open>GmailClient\<close> holds the service as its only attribute.  Each method catches every
  exception of its remote call, prints it and returns a fixed value instead.
\<close>

type_synonym 'w GmailClient = "'w service"

definition list_messages ::
  "'w GmailClient \<Rightarrow> 'w \<Rightarrow> string \<Rightarrow> int \<Rightarrow> msg_ref list \<times> 'w" where
  "list_messages self w query max_res =
     (case messages_list self w query max_res of
        (Inl e, w1) \<Rightarrow> ([], w1)
      | (Inr result, w1) \<Rightarrow> ((case messages result of None \<Rightarrow> [] | Some ms \<Rightarrow> ms), w1))"

definition get_message :: "'w GmailClient \<Rightarrow> 'w \<Rightarrow> string \<Rightarrow> message option \<times> 'w" where
  "get_message self w message_id =
     (case messages_get self w message_id of
        (Inl e, w1) \<Rightarrow> (None, w1)
      | (Inr m, w1) \<Rightarrow> (Some m, w1))"

text \<open>\<open>not message\<close>: the message is \<open>None\<close> or the empty dict.\<close>

definition empty_message :: "message \<Rightarrow> bool" where
  "empty_message m =
     (msg_id m = None \<and> threadId m = None \<and> labelIds m = None \<and> snippet m = None \<and>
      payload m = None \<and> other_keys m = [])"

definition falsy_message :: "message option \<Rightarrow> bool" where
  "falsy_message m = (case m of None \<Rightarrow> True | Some d \<Rightarrow> empty_message d)"

text \<open>\<open>'data' in part.get('body', {})\<close> and \<open>part['body']['data']\<close>.\<close>

definition has_data :: "part \<Rightarrow> bool" where
  "has_data p = (case body p of None \<Rightarrow> False | Some b \<Rightarrow> data b \<noteq> None)"

definition body_data :: "part \<Rightarrow> string" where
  "body_data p = the (data (the (body p)))"

type_synonym decoder = "string \<Rightarrow> error + string"

text \<open>
  \<open>extract_text_from_payload\<close> (lines 52 to 71).  \<open>parts_loop\<close> is the \<open>for\<close> loop
  over \<open>payload['parts']\<close>: its second argument is the variable \<open>body_text\<close>, and the
  value of that variable when the loop ends is what the function returns.  Decoding may
  raise; the exception leaves the function.
\<close>

fun extract_text_from_payload :: "decoder \<Rightarrow> part \<Rightarrow> error + string"
  and parts_loop :: "decoder \<Rightarrow> string \<Rightarrow> part list \<Rightarrow> error + string" where
  "extract_text_from_payload dec (Part mt hs b ps) =
     (case ps of
        Some children \<Rightarrow> parts_loop dec [] children
      | None \<Rightarrow>
          if mt = ''text/plain'' \<and> has_data (Part mt hs b ps)
          then dec (body_data (Part mt hs b ps)) else Inr [])"
| "parts_loop dec body_text [] = Inr body_text"
| "parts_loop dec body_text (p # rest) =
     (if mimeType p = ''text/plain'' \<and> has_data p then dec (body_data p)
      else if parts p \<noteq> None then
        (case extract_text_from_payload dec p of
           Inl e \<Rightarrow> Inl e
         | Inr t \<Rightarrow> if t \<noteq> [] then Inr t else parts_loop dec t rest)
      else parts_loop dec body_text rest)"

definition get_message_body :: "decoder \<Rightarrow> message option \<Rightarrow> error + string" where
  "get_message_body dec m =
     (if falsy_message m \<or> payload (the m) = None then Inr []
      else extract_text_from_payload dec (the (payload (the m))))"

text \<open>
  The same two functions on the parts as the code can receive them, where the key
  \<open>mimeType\<close> may be missing: lines 57 and 67 read it by subscript, before anything
  else is tested, and no \<open>try\<close> statement encloses them, so the \<open>KeyError\<close> leaves
  \<open>get_message_body\<close>.
\<close>

definition api_has_data :: "api_part \<Rightarrow> bool" where
  "api_has_data p = (case api_body p of None \<Rightarrow> False | Some b \<Rightarrow> data b \<noteq> None)"

definition api_body_data :: "api_part \<Rightarrow> string" where
  "api_body_data p = the (data (the (api_body p)))"

fun extract_text_from_api_payload :: "decoder \<Rightarrow> api_part \<Rightarrow> error + string"
  and api_parts_loop :: "decoder \<Rightarrow> string \<Rightarrow> api_part list \<Rightarrow> error + string" where
  "extract_text_from_api_payload dec (ApiPart mt hs b ps) =
     (case ps of
        Some children \<Rightarrow> api_parts_loop dec [] children
      | None \<Rightarrow>
          (case mt of
             None \<Rightarrow> Inl (KeyError ''mimeType'')
           | Some t \<Rightarrow>
               if t = ''text/plain'' \<and> api_has_data (ApiPart mt hs b ps)
               then dec (api_body_data (ApiPart mt hs b ps)) else Inr []))"
| "api_parts_loop dec body_text [] = Inr body_text"
| "api_parts_loop dec body_text (p # rest) =
     (case api_mimeType p of
        None \<Rightarrow> Inl (KeyError ''mimeType'')
      | Some t \<Rightarrow>
          if t = ''text/plain'' \<and> api_has_data p then dec (api_body_data p)
          else if api_parts p \<noteq> None then
            (case extract_text_from_api_payload dec p of
               Inl e \<Rightarrow> Inl e
             | Inr r \<Rightarrow> if r \<noteq> [] then Inr r else api_parts_loop dec r rest)
          else api_parts_loop dec body_text rest)"

text \<open>
  \<open>get_message_body\<close> (lines 44 to 50 and 73) on such a message: the empty string
  when the message is \<open>None\<close>, empty or without \<open>payload\<close>.
\<close>

definition get_api_message_body :: "decoder \<Rightarrow> api_message option \<Rightarrow> error + string" where
  "get_api_message_body dec m =
     (case m of
        None \<Rightarrow> Inr []
      | Some d \<Rightarrow>
          (case api_payload d of
             None \<Rightarrow> Inr []
           | Some p \<Rightarrow> extract_text_from_api_payload dec p))"

text \<open>A part that has its \<open>mimeType\<close>, as the dict the code receives.\<close>

fun api_of :: "part \<Rightarrow> api_part" where
  "api_of (Part mt hs b ps) =
     ApiPart (Some mt) hs b (case ps of None \<Rightarrow> None | Some cs \<Rightarrow> Some (map api_of cs))"

text \<open>
  \<open>get_message_headers\<close> (lines 75 to 83): the dict is filled in the order of the
  header list, so a later header of the same name replaces an earlier one.
\<close>

definition get_message_headers :: "message option \<Rightarrow> (string \<rightharpoonup> string)" where
  "get_message_headers m =
     (if falsy_message m \<or> payload (the m) = None then Map.empty
      else fold (\<lambda>(name, val) acc. acc(name \<mapsto> val))
             (case headers (the (payload (the m))) of None \<Rightarrow> [] | Some hs \<Rightarrow> hs)
             Map.empty)"




definition delete_message :: "'w GmailClient \<Rightarrow> 'w \<Rightarrow> string \<Rightarrow> bool \<times> 'w" where
  "delete_message self w message_id =
     (case messages_delete self w message_id of
        (Inl e, w1) \<Rightarrow> (False, w1)
      | (Inr u, w1) \<Rightarrow> (True, w1))"

text \<open>
  Lines 181 to 194 of \<open>search_messages\<close>: the list \<open>query_parts\<close> is extended by one
  clause for each truthy argument, in the order of the \<open>if\<close> statements, and joined
  with a single space.
\<close>

definition build_query ::
  "string option \<Rightarrow> string option \<Rightarrow> string option \<Rightarrow> bool \<Rightarrow> bool \<Rightarrow> string" where
  "build_query sender_arg subject_arg after_arg attachment_arg unread_arg =
    (let query_parts = [];
         query_parts = (if truthy_str sender_arg
                        then query_parts @ [''from:'' @ the sender_arg] else query_parts);
         query_parts = (if truthy_str subject_arg
                        then query_parts @
                          [''subject:'' @ [CHR 0x22] @ the subject_arg @ [CHR 0x22]]
                        else query_parts);
         query_parts = (if truthy_str after_arg
                        then query_parts @ [''after:'' @ the after_arg] else query_parts);
         query_parts = (if attachment_arg
                        then query_parts @ [''has:attachment''] else query_parts);
         query_parts = (if unread_arg
                        then query_parts @ [''is:unread''] else query_parts)
     in str_join '' '' query_parts)"

text \<open>
  \<open>search_messages\<close> (lines 179 to 196): the query goes to \<open>list_messages\<close> with no
  second argument, so \<open>max_results\<close> has its default, 10.
\<close>

definition search_messages ::
  "'w GmailClient \<Rightarrow> 'w \<Rightarrow> string option \<Rightarrow> string option \<Rightarrow> string option \<Rightarrow> bool \<Rightarrow> bool
     \<Rightarrow> msg_ref list \<times> 'w" where
  "search_messages self w sender_arg subject_arg after_arg attachment_arg unread_arg =
     list_messages self w
       (build_query sender_arg subject_arg after_arg attachment_arg unread_arg) 10"

section \<open>gmail\_mcp\_server.py\<close>

text \<open>The module globals \<open>_gmail_client\<close> and \<open>_gmail_service\<close>.\<close>

record 'w globals =
  gmail_client :: "'w GmailClient option"
  gmail_service :: "'w service option"

definition get_gmail_client ::
  "'w externals \<Rightarrow> 'w globals \<Rightarrow> 'w \<Rightarrow> (error + 'w GmailClient) \<times> 'w globals \<times> 'w" where
  "get_gmail_client X g w =
     (if gmail_client g = None then
        (let connection_id = environ X ''GMAIL_CONNECTION_ID'';
             provider_config_key =
               (case environ X ''NANGO_PROVIDER_CONFIG_KEY'' of None \<Rightarrow> ''google'' | Some k \<Rightarrow> k)
         in if \<not> truthy_str connection_id
            then (Inl (ValueError ''GMAIL_CONNECTION_ID environment variable is required''), g, w)
            else (case authenticate_gmail_with_nango_v2 X w (the connection_id)
                         provider_config_key of
                    (Inl e, w1) \<Rightarrow> (Inl e, g, w1)
                  | (Inr svc, w1) \<Rightarrow>
                      (Inr svc, g\<lparr>gmail_service := Some svc, gmail_client := Some svc\<rparr>, w1)))
      else (Inr (the (gmail_client g)), g, w))"

definition validate_message_id :: "string \<Rightarrow> bool" where
  "validate_message_id message_id = (message_id \<noteq> [] \<and> length message_id > 0)"





subsection \<open>Tool responses\<close>

text \<open>
  A tool returns a dict, kept as the list of its items in the order written in the
  source.  \<open>RErr p e\<close> is the string \<open>p\<close> followed by \<open>str(e)\<close> for the exception
  \<open>e\<close>; \<open>RRepr p xs\<close> is the string \<open>p\<close> followed by the printed list \<open>xs\<close>.
\<close>

datatype dval = DStr string | DStrs "string list" | DBool bool

type_synonym detail = "(string \<times> dval) list"

datatype rval =
    RBool bool
  | RInt int
  | RStr string
  | RStrs "string list"
  | RDetail detail
  | RDetails "detail list"
  | RErr string error
  | RRepr string "string list"

type_synonym response = "(string \<times> rval) list"

text \<open>\<open>headers.get(name, default)\<close>.\<close>

definition header_or :: "(string \<rightharpoonup> string) \<Rightarrow> string \<Rightarrow> string \<Rightarrow> string" where
  "header_or hdrs name dflt = (case hdrs name of None \<Rightarrow> dflt | Some v \<Rightarrow> v)"

text \<open>\<open>message.get('snippet', '')[:100] + '...' if message.get('snippet') else ''\<close>.\<close>

definition snippet_preview :: "message \<Rightarrow> string" where
  "snippet_preview m =
     (if truthy_str (snippet m) then take 100 (the (snippet m)) @ ''...'' else [])"

text \<open>\<open>message.get('labelIds', [])\<close>.\<close>

definition labels_of :: "message \<Rightarrow> string list" where
  "labels_of m = (case labelIds m of None \<Rightarrow> [] | Some ls \<Rightarrow> ls)"

subsection \<open>gmail\_list\_messages\<close>

text \<open>The dict appended to \<open>detailed_messages\<close> at lines 90 to 98.\<close>

definition list_entry :: "msg_ref \<Rightarrow> message \<Rightarrow> detail" where
  "list_entry msg m =
     (let hdrs = get_message_headers (Some m)
      in [(''id'', DStr (ref_id msg)),
          (''from'', DStr (header_or hdrs ''From'' ''Unknown'')),
          (''subject'', DStr (header_or hdrs ''Subject'' ''No Subject'')),
          (''date'', DStr (header_or hdrs ''Date'' ''Unknown'')),
          (''snippet'', DStr (snippet_preview m)),
          (''labels'', DStrs (labels_of m)),
          (''is_unread'', DBool (''UNREAD'' \<in> set (labels_of m)))])"

text \<open>The loop of lines 86 to 98; the last argument is \<open>detailed_messages\<close>.\<close>

fun list_details ::
  "'w GmailClient \<Rightarrow> 'w \<Rightarrow> msg_ref list \<Rightarrow> detail list \<Rightarrow> detail list \<times> 'w" where
  "list_details gmail w [] detailed = (detailed, w)"
| "list_details gmail w (msg # rest) detailed =
     (case get_message gmail w (ref_id msg) of
        (m, w1) \<Rightarrow>
          if \<not> falsy_message m
          then list_details gmail w1 rest (detailed @ [list_entry msg (the m)])
          else list_details gmail w1 rest detailed)"

definition gmail_list_messages ::
  "'w externals \<Rightarrow> 'w globals \<Rightarrow> 'w \<Rightarrow> string \<Rightarrow> int \<Rightarrow> response \<times> 'w globals \<times> 'w" where
  "gmail_list_messages X g w query max_res =
     (if max_res < 1 \<or> max_res > 100
      then ([(''success'', RBool False),
             (''error'', RStr ''max_results must be between 1 and 100'')], g, w)
      else
        (case get_gmail_client X g w of
           (Inl e, g1, w1) \<Rightarrow>
             ([(''success'', RBool False),
               (''error'', RErr ''Failed to list messages: '' e)], g1, w1)
         | (Inr gmail, g1, w1) \<Rightarrow>
             (case list_messages gmail w1 query max_res of
                (msgs, w2) \<Rightarrow>
                  if msgs = []
                  then ([(''success'', RBool True), (''count'', RInt 0),
                         (''messages'', RDetails []),
                         (''message'', RStr ''No messages found'')], g1, w2)
                  else
                    (case list_details gmail w2 msgs [] of
                       (detailed, w3) \<Rightarrow>
                         ([(''success'', RBool True),
                           (''count'', RInt (int (length detailed))),
                           (''messages'', RDetails detailed),
                           (''query_used'',
                              RStr (if query \<noteq> [] then query else ''all messages''))],
                          g1, w3)))))"

subsection \<open>gmail\_get\_message\<close>


subsection \<open>gmail\_search\_messages\<close>

text \<open>The arguments of the tool (lines 206 to 214).\<close>

record search_args =
  sender :: "string option"
  subject :: "string option"
  after_date :: "string option"
  before_date :: "string option"
  has_attachment :: bool
  is_unread :: bool
  max_results :: int

text \<open>
  The query built for a tool call: the call of \<open>search_messages\<close> at lines 236 to 242
  passes \<open>sender\<close>, \<open>subject\<close>, \<open>after_date\<close>, \<open>has_attachment\<close> and \<open>is_unread\<close>;
  \<open>search_messages\<close> has no parameter for \<open>before_date\<close>.
\<close>

definition tool_search_query :: "search_args \<Rightarrow> string" where
  "tool_search_query a =
     build_query (sender a) (subject a) (after_date a) (has_attachment a) (is_unread a)"

text \<open>The dict appended to \<open>detailed_messages\<close> at lines 261 to 269.\<close>

definition search_entry :: "msg_ref \<Rightarrow> message \<Rightarrow> detail" where
  "search_entry msg m =
     (let hdrs = get_message_headers (Some m)
      in [(''id'', DStr (ref_id msg)),
          (''from'', DStr (header_or hdrs ''From'' ''Unknown'')),
          (''subject'', DStr (header_or hdrs ''Subject'' ''No Subject'')),
          (''date'', DStr (header_or hdrs ''Date'' ''Unknown'')),
          (''snippet'', DStr (snippet_preview m)),
          (''is_unread'', DBool (''UNREAD'' \<in> set (labels_of m))),
          (''has_attachment'',
             DBool (str_contains
                      (map lower_char (if truthy_str (snippet m) then the (snippet m) else []))
                      ''attachment''))])"

fun search_details ::
  "'w GmailClient \<Rightarrow> 'w \<Rightarrow> msg_ref list \<Rightarrow> detail list \<Rightarrow> detail list \<times> 'w" where
  "search_details gmail w [] detailed = (detailed, w)"
| "search_details gmail w (msg # rest) detailed =
     (case get_message gmail w (ref_id msg) of
        (m, w1) \<Rightarrow>
          if \<not> falsy_message m
          then search_details gmail w1 rest (detailed @ [search_entry msg (the m)])
          else search_details gmail w1 rest detailed)"

text \<open>The summary of the criteria, lines 272 to 278.\<close>

definition search_criteria :: "search_args \<Rightarrow> string list" where
  "search_criteria a =
     (let criteria = [];
          criteria = (if truthy_str (sender a)
                      then criteria @ [''sender: '' @ the (sender a)] else criteria);
          criteria = (if truthy_str (subject a)
                      then criteria @ [''subject: '' @ the (subject a)] else criteria);
          criteria = (if truthy_str (after_date a)
                      then criteria @ [''after: '' @ the (after_date a)] else criteria);
          criteria = (if truthy_str (before_date a)
                      then criteria @ [''before: '' @ the (before_date a)] else criteria);
          criteria = (if has_attachment a then criteria @ [''has attachment''] else criteria);
          criteria = (if is_unread a then criteria @ [''unread only''] else criteria)
      in criteria)"

definition gmail_search_messages ::
  "'w externals \<Rightarrow> 'w globals \<Rightarrow> 'w \<Rightarrow> search_args \<Rightarrow> response \<times> 'w globals \<times> 'w" where
  "gmail_search_messages X g w a =
     (if max_results a < 1 \<or> max_results a > 100
      then ([(''success'', RBool False),
             (''error'', RStr ''max_results must be between 1 and 100'')], g, w)
      else
        (case get_gmail_client X g w of
           (Inl e, g1, w1) \<Rightarrow>
             ([(''success'', RBool False),
               (''error'', RErr ''Failed to search messages: '' e)], g1, w1)
         | (Inr gmail, g1, w1) \<Rightarrow>
             (case search_messages gmail w1 (sender a) (subject a) (after_date a)
                     (has_attachment a) (is_unread a) of
                (msgs, w2) \<Rightarrow>
                  if msgs = []
                  then ([(''success'', RBool True), (''count'', RInt 0),
                         (''messages'', RDetails []),
                         (''message'', RStr ''No messages found matching search criteria'')],
                        g1, w2)
                  else
                    (case search_details gmail w2 (take (nat (max_results a)) msgs) [] of
                       (detailed, w3) \<Rightarrow>
                         ([(''success'', RBool True),
                           (''count'', RInt (int (length detailed))),
                           (''messages'', RDetails detailed),
                           (''search_criteria'',
                              RStrs (if search_criteria a \<noteq> [] then search_criteria a
                                     else [''all messages'']))],
                          g1, w3)))))"

subsection \<open>gmail\_mark\_as\_read and gmail\_delete\_messages\<close>


fun delete_loop ::
  "'w GmailClient \<Rightarrow> 'w \<Rightarrow> string list \<Rightarrow> nat \<Rightarrow> string list \<Rightarrow> (nat \<times> string list) \<times> 'w" where
  "delete_loop gmail w [] success_count failed_ids = ((success_count, failed_ids), w)"
| "delete_loop gmail w (i # rest) success_count failed_ids =
     (case delete_message gmail w i of
        (ok, w1) \<Rightarrow>
          if ok then delete_loop gmail w1 rest (success_count + 1) failed_ids
          else delete_loop gmail w1 rest success_count (failed_ids @ [i]))"


definition gmail_delete_messages ::
  "'w externals \<Rightarrow> 'w globals \<Rightarrow> 'w \<Rightarrow> string list \<Rightarrow> response \<times> 'w globals \<times> 'w" where
  "gmail_delete_messages X g w message_ids =
     (if message_ids = []
      then ([(''success'', RBool False), (''error'', RStr ''No message IDs provided'')], g, w)
      else
        (let invalid_ids = filter (\<lambda>i. \<not> validate_message_id i) message_ids
         in if invalid_ids \<noteq> []
            then ([(''success'', RBool False),
                   (''error'', RRepr ''Invalid message IDs: '' invalid_ids)], g, w)
            else
              (case get_gmail_client X g w of
                 (Inl e, g1, w1) \<Rightarrow>
                   ([(''success'', RBool False),
                     (''error'', RErr ''Failed to delete messages: '' e)], g1, w1)
               | (Inr gmail, g1, w1) \<Rightarrow>
                   (case delete_loop gmail w1 message_ids 0 [] of
                      ((success_count, failed_ids), w2) \<Rightarrow>
                        ([(''success'', RBool (success_count > 0)),
                          (''deleted'', RInt (int success_count)),
                          (''total_requested'', RInt (int (length message_ids))),
                          (''message'',
                             RStr (''Deleted '' @ str_nat success_count @ ''/'' @
                                   str_nat (length message_ids) @ '' messages''))]
                         @ (if failed_ids \<noteq> []
                            then [(''failed_ids'', RStrs failed_ids),
                                  (''warning'', RStr ''Some messages could not be deleted'')]
                            else []),
                         g1, w2)))))"

subsection \<open>gmail\_send\_message, gmail\_send\_message\_with\_attachment, gmail\_get\_stats\<close>




section \<open>The operations as the specification words them\<close>

subsection \<open>buildQuery\<close>

text \<open>
  One clause per active field, in the order sender, subject, after\_date,
  has\_attachment, is\_unread, joined by single spaces; a string field is active when it
  is present and not empty, a flag when it is true.
\<close>

definition clause_from :: "string \<Rightarrow> string" where
  "clause_from s = ''from:'' @ s"

definition clause_subject :: "string \<Rightarrow> string" where
  "clause_subject s = ''subject:'' @ [CHR 0x22] @ s @ [CHR 0x22]"

definition clause_after :: "string \<Rightarrow> string" where
  "clause_after s = ''after:'' @ s"

definition active_clause :: "(string \<Rightarrow> string) \<Rightarrow> string option \<Rightarrow> string list" where
  "active_clause form x = (case x of None \<Rightarrow> [] | Some s \<Rightarrow> if s = [] then [] else [form s])"

definition flag_clause :: "string \<Rightarrow> bool \<Rightarrow> string list" where
  "flag_clause c b = (if b then [c] else [])"

text \<open>The clauses in a row, a single space before each one after the first.\<close>

definition spaced :: "string list \<Rightarrow> string" where
  "spaced cs = (case cs of [] \<Rightarrow> [] | c # rest \<Rightarrow> c @ concat (map (\<lambda>x. CHR '' '' # x) rest))"

definition buildQuery_spec :: "search_args \<Rightarrow> string" where
  "buildQuery_spec f =
     spaced
       (active_clause clause_from (sender f) @
        active_clause clause_subject (subject f) @
        active_clause clause_after (after_date f) @
        flag_clause ''has:attachment'' (has_attachment f) @
        flag_clause ''is:unread'' (is_unread f))"

subsection \<open>extractBody\<close>


text \<open>All the parts of a tree, the root first.\<close>

fun all_parts :: "part \<Rightarrow> part list" where
  "all_parts (Part mt hs b ps) =
     Part mt hs b ps # (case ps of None \<Rightarrow> [] | Some cs \<Rightarrow> concat (map all_parts cs))"

fun api_all_parts :: "api_part \<Rightarrow> api_part list" where
  "api_all_parts (ApiPart mt hs b ps) =
     ApiPart mt hs b ps # (case ps of None \<Rightarrow> [] | Some cs \<Rightarrow> concat (map api_all_parts cs))"

subsection \<open>buildCredential\<close>



section \<open>A concrete environment for the examples\<close>

text \<open>
  The state of the outside world is the list of the external calls made so far.  The
  broker answers with an access token and a refresh token; a credential is valid when
  it has a token, as for the credential library when no expiry is given; the mail service
  has one message, deletes \<open>id1\<close> and fails on every other id; the file system has the
  one file \<open>/tmp/report.pdf\<close>.
\<close>

definition demo_decode :: decoder where
  "demo_decode s = (if s = ''aGVsbG8='' then Inr ''hello'' else Inl (External ''binascii.Error''))"

definition demo_tree :: part where
  "demo_tree =
     Part ''multipart/mixed'' None None
       (Some [Part ''multipart/alternative'' None None
                (Some [Part ''text/html'' None (Some \<lparr>data = Some ''PGI+aGk8L2I+''\<rparr>) None,
                       Part ''text/plain'' None (Some \<lparr>data = Some ''aGVsbG8=''\<rparr>) None]),
              Part ''application/pdf'' None (Some \<lparr>data = None\<rparr>) None])"

definition demo_html_tree :: part where
  "demo_html_tree =
     Part ''multipart/related'' (Some [(''Subject'', ''Hi'')]) None
       (Some [Part ''text/html'' None (Some \<lparr>data = Some ''PGI+aGk8L2I+''\<rparr>) None,
              Part ''image/png'' None (Some \<lparr>data = None\<rparr>) None])"

text \<open>A tree without plain text whose second part has no \<open>mimeType\<close>.\<close>

definition untyped_tree :: api_part where
  "untyped_tree =
     ApiPart (Some ''multipart/related'') None None
       (Some [ApiPart (Some ''text/html'') None (Some \<lparr>data = Some ''PGI+aGk8L2I+''\<rparr>) None,
              ApiPart None None (Some \<lparr>data = None\<rparr>) None])"

definition demo_message :: message where
  "demo_message =
     \<lparr>msg_id = Some ''m1'', threadId = Some ''t1'', labelIds = Some [''INBOX'', ''UNREAD''],
      snippet = Some ''hello'', payload = Some demo_tree,
      other_keys = [''historyId'', ''internalDate'', ''sizeEstimate'']\<rparr>"

definition demo_service :: "string list service" where
  "demo_service =
     \<lparr>messages_list = (\<lambda>w q n. (Inr \<lparr>messages = Some [\<lparr>ref_id = ''m1''\<rparr>]\<rparr>, w @ [''list''])),
      messages_get = (\<lambda>w i. (Inr demo_message, w @ [''get''])),
      messages_modify = (\<lambda>w i ls. (Inr (), w @ [''modify''])),
      messages_delete =
        (\<lambda>w i. if i = ''id1'' then (Inr (), w @ [''delete''])
                else (Inl (External ''HttpError 404''), w @ [''delete''])),
      messages_send = (\<lambda>w raw. (Inr \<lparr>sent_id = Some ''s1''\<rparr>, w @ [''send''])),
      getProfile =
        (\<lambda>w. (Inr \<lparr>emailAddress = Some ''me@example.com'', messagesTotal = Some 3,
                     threadsTotal = Some 2, historyId = Some ''77''\<rparr>, w @ [''profile'']))\<rparr>"

text \<open>A mail service whose every call fails.\<close>

definition failing_service :: "string list service" where
  "failing_service =
     demo_service
       \<lparr>messages_list := (\<lambda>w q n. (Inl (External ''HttpError 500''), w @ [''list''])),
        messages_get := (\<lambda>w i. (Inl (External ''HttpError 500''), w @ [''get''])),
        messages_modify := (\<lambda>w i ls. (Inl (External ''HttpError 500''), w @ [''modify''])),
        messages_delete := (\<lambda>w i. (Inl (External ''HttpError 500''), w @ [''delete''])),
        messages_send := (\<lambda>w raw. (Inl (External ''HttpError 500''), w @ [''send''])),
        getProfile := (\<lambda>w. (Inl (External ''HttpError 500''), w @ [''profile'']))\<rparr>"

definition demo_response :: json where
  "demo_response =
     JObj [(''access_token'', JStr ''ya29.old''), (''refresh_token'', JStr ''1//refresh'')]"

definition demo_externals :: "string list externals" where
  "demo_externals =
     \<lparr>environ = map_of [(''NANGO_NANGO_BASE_URL'', ''https://broker.test''),
                        (''NANGO_NANGO_SECRET_KEY'', ''secret''),
                        (''GMAIL_CONNECTION_ID'', ''conn-1'')],
      http_get_json = (\<lambda>w r. (Inr demo_response, w @ [''broker''])),
      creds_valid = (\<lambda>w c. token c \<noteq> JNull),
      creds_refresh = (\<lambda>w c. (Inr (c\<lparr>token := JStr ''ya29.new''\<rparr>), w @ [''refresh''])),
      build = (\<lambda>w c. (Inr demo_service, w @ [''build''])),
      b64_utf8_decode = demo_decode,
      mime_text = (\<lambda>t s b. Inr ''dG86IGFAYi5jb20='' ),
      mime_multipart = (\<lambda>t s b f c. Inr ''TUlNRS1WZXJzaW9uOiAxLjA=''),
      path_exists = (\<lambda>w f. f = ''/tmp/report.pdf''),
      read_file = (\<lambda>w f. if f = ''/tmp/report.pdf'' then Inr ''%PDF'' else
                          Inl (External ''FileNotFoundError''))\<rparr>"

definition no_client :: "string list globals" where
  "no_client = \<lparr>gmail_client = None, gmail_service = None\<rparr>"



section \<open>The search query\<close>

lemma str_join_spaced: "str_join '' '' cs = spaced cs"
  by (induction "'' ''" cs rule: str_join.induct) (simp_all add: spaced_def)

lemma build_query_clauses:
  "build_query s j a h u =
     str_join '' ''
       (active_clause clause_from s @ active_clause clause_subject j @
        active_clause clause_after a @ flag_clause ''has:attachment'' h @
        flag_clause ''is:unread'' u)"
  by (simp add: build_query_def active_clause_def flag_clause_def truthy_str_def
      clause_from_def clause_subject_def clause_after_def split: option.splits)

text \<open>
  C4.  A filter in which only \<open>before_date\<close> is set (the other string fields absent,
  both flags false) yields the empty query, whatever the value of \<open>before_date\<close>; for
  every filter, changing \<open>before_date\<close> never changes the query; and that query is the
  one the tool's search hands to the remote list call.
\<close>

theorem before_date_never_in_query:
  "(sender f = None \<and> subject f = None \<and> after_date f = None \<and>
      \<not> has_attachment f \<and> \<not> is_unread f \<longrightarrow> tool_search_query f = [])
   \<and> tool_search_query (f\<lparr>before_date := d\<rparr>) = tool_search_query f
   \<and> search_messages self w (sender f) (subject f) (after_date f) (has_attachment f)
        (is_unread f) = list_messages self w (tool_search_query f) 10"
  by (simp add: tool_search_query_def build_query_def truthy_str_def search_messages_def)

theorem before_date_never_in_query_witness:
  "tool_search_query \<lparr>sender = None, subject = None, after_date = None,
      before_date = Some ''2024/01/01'', has_attachment = False, is_unread = False,
      max_results = 20\<rparr> = []"
  using before_date_never_in_query
    [of "\<lparr>sender = None, subject = None, after_date = None,
      before_date = Some ''2024/01/01'', has_attachment = False, is_unread = False,
      max_results = 20\<rparr>", THEN conjunct1]
  by simp

text \<open>
  C7.  The query is the clauses of the active fields (a string field present and not
  empty, a flag that is true) in the order sender, subject, after\_date, has\_attachment,
  is\_unread, with a single space before each clause after the first; with all five
  fields active it is \<open>from:<sender> subject:"<subject>" after:<after_date>
  has:attachment is:unread\<close>, the sender, the subject and the date copied unchanged,
  the subject between two double quotes with no escaping.  The query depends on the
  filter alone: whatever the client and the state of the mail service, it is this
  string that \<open>search_messages\<close> hands to the list call.
\<close>

theorem query_fixed_order:
  "tool_search_query f = buildQuery_spec f
   \<and> (sender f1 = Some s \<and> s \<noteq> [] \<and> subject f1 = Some j \<and> j \<noteq> [] \<and>
       after_date f1 = Some a \<and> a \<noteq> [] \<and> has_attachment f1 \<and> is_unread f1 \<longrightarrow>
       tool_search_query f1 =
         ''from:'' @ s @ '' subject:'' @ [CHR 0x22] @ j @ [CHR 0x22] @ '' after:'' @ a @
         '' has:attachment is:unread'')
   \<and> search_messages self w (sender f) (subject f) (after_date f) (has_attachment f)
        (is_unread f) = list_messages self w (buildQuery_spec f) 10"
proof -
  have eq: "tool_search_query f = buildQuery_spec f" for f
    by (simp add: tool_search_query_def buildQuery_spec_def build_query_clauses
        str_join_spaced)
  have full: "tool_search_query f1 =
         ''from:'' @ s @ '' subject:'' @ [CHR 0x22] @ j @ [CHR 0x22] @ '' after:'' @ a @
         '' has:attachment is:unread''"
    if "sender f1 = Some s \<and> s \<noteq> [] \<and> subject f1 = Some j \<and> j \<noteq> [] \<and>
       after_date f1 = Some a \<and> a \<noteq> [] \<and> has_attachment f1 \<and> is_unread f1"
    using that by (simp add: tool_search_query_def build_query_def truthy_str_def)
  have call: "search_messages self w (sender f) (subject f) (after_date f) (has_attachment f)
        (is_unread f) = list_messages self w (buildQuery_spec f) 10"
    using eq [of f] by (simp add: search_messages_def tool_search_query_def)
  from eq full call show ?thesis by blast
qed

theorem query_fixed_order_witness:
  "tool_search_query
     \<lparr>sender = Some ''a@b.com'', subject = Some ''Q3 report'',
      after_date = Some ''2024/01/01'', before_date = Some ''2024/12/31'',
      has_attachment = True, is_unread = True, max_results = 20\<rparr>
     = ''from:a@b.com subject:'' @ [CHR 0x22] @ ''Q3 report'' @ [CHR 0x22] @
       '' after:2024/01/01 has:attachment is:unread''
   \<and> tool_search_query
     \<lparr>sender = Some ''a@b.com'', subject = Some [], after_date = None,
      before_date = None, has_attachment = False, is_unread = True, max_results = 20\<rparr>
     = ''from:a@b.com is:unread''"
proof -
  have "tool_search_query
     \<lparr>sender = Some ''a@b.com'', subject = Some ''Q3 report'',
      after_date = Some ''2024/01/01'', before_date = Some ''2024/12/31'',
      has_attachment = True, is_unread = True, max_results = 20\<rparr>
     = ''from:a@b.com subject:'' @ [CHR 0x22] @ ''Q3 report'' @ [CHR 0x22] @
       '' after:2024/01/01 has:attachment is:unread''"
    using query_fixed_order
      [where ?f1.0 = "\<lparr>sender = Some ''a@b.com'', subject = Some ''Q3 report'',
          after_date = Some ''2024/01/01'', before_date = Some ''2024/12/31'',
          has_attachment = True, is_unread = True, max_results = 20\<rparr>"
        and s = "''a@b.com''" and j = "''Q3 report''" and a = "''2024/01/01''",
        THEN conjunct2, THEN conjunct1]
    by simp
  moreover have "tool_search_query
     \<lparr>sender = Some ''a@b.com'', subject = Some [], after_date = None,
      before_date = None, has_attachment = False, is_unread = True, max_results = 20\<rparr>
     = ''from:a@b.com is:unread''"
    using query_fixed_order
      [where f = "\<lparr>sender = Some ''a@b.com'', subject = Some [], after_date = None,
          before_date = None, has_attachment = False, is_unread = True, max_results = 20\<rparr>",
        THEN conjunct1]
    by (simp add: buildQuery_spec_def spaced_def active_clause_def flag_clause_def
        clause_from_def)
  ultimately show ?thesis by simp
qed

section \<open>Body extraction\<close>


lemma part_in_all_parts: "p \<in> set (all_parts p)"
  by (cases p) simp

lemma no_plain_empty:
  "(\<forall>q\<in>set (all_parts p). mimeType q \<noteq> ''text/plain'') \<Longrightarrow>
     extract_text_from_payload dec p = Inr []"
  "(\<forall>c\<in>set ps. \<forall>q\<in>set (all_parts c). mimeType q \<noteq> ''text/plain'') \<Longrightarrow> acc = [] \<Longrightarrow>
     parts_loop dec acc ps = Inr []"
proof (induction dec p and dec acc ps rule: extract_text_from_payload_parts_loop.induct)
  case (1 dec mt hs b ps)
  then show ?case by (auto split: option.splits)
next
  case (2 dec body_text)
  then show ?case by simp
next
  case (3 dec body_text p rest)
  with part_in_all_parts [of p] show ?case by (auto split: option.splits sum.splits)
qed



lemma api_part_in_all_parts: "p \<in> set (api_all_parts p)"
  by (cases p) simp

lemma api_of_refines:
  "extract_text_from_api_payload dec (api_of p) = extract_text_from_payload dec p"
  "api_parts_loop dec acc (map api_of ps) = parts_loop dec acc ps"
proof (induction dec p and dec acc ps rule: extract_text_from_payload_parts_loop.induct)
  case (1 dec mt hs b ps)
  then show ?case
    by (auto simp: api_has_data_def has_data_def api_body_data_def body_data_def
        split: option.splits)
next
  case (2 dec body_text)
  then show ?case by simp
next
  case (3 dec body_text p rest)
  obtain mt hs b ps where p: "p = Part mt hs b ps" by (cases p)
  with 3 show ?case
    by (auto simp: api_has_data_def has_data_def api_body_data_def body_data_def
        split: option.splits sum.splits)
qed

lemma api_typed_no_plain:
  "(\<forall>q\<in>set (api_all_parts p). api_mimeType q \<noteq> Some ''text/plain'' \<and> api_mimeType q \<noteq> None)
     \<Longrightarrow> extract_text_from_api_payload dec p = Inr []"
  "(\<forall>c\<in>set ps. \<forall>q\<in>set (api_all_parts c).
       api_mimeType q \<noteq> Some ''text/plain'' \<and> api_mimeType q \<noteq> None) \<Longrightarrow> acc = [] \<Longrightarrow>
     api_parts_loop dec acc ps = Inr []"
proof (induction dec p and dec acc ps rule: extract_text_from_api_payload_api_parts_loop.induct)
  case (1 dec mt hs b ps)
  show ?case
  proof (cases ps)
    case None
    with "1.prems" show ?thesis by (auto split: option.splits)
  next
    case (Some cs)
    from "1.prems" Some
    have "\<forall>c\<in>set cs. \<forall>q\<in>set (api_all_parts c).
            api_mimeType q \<noteq> Some ''text/plain'' \<and> api_mimeType q \<noteq> None"
      by auto
    from "1.IH" [OF Some this refl] Some show ?thesis by simp
  qed
next
  case (2 dec body_text)
  then show ?case by simp
next
  case (3 dec body_text p rest)
  from "3.prems"(1)
  have gp: "\<forall>q\<in>set (api_all_parts p).
              api_mimeType q \<noteq> Some ''text/plain'' \<and> api_mimeType q \<noteq> None"
    and gr: "\<forall>c\<in>set rest. \<forall>q\<in>set (api_all_parts c).
               api_mimeType q \<noteq> Some ''text/plain'' \<and> api_mimeType q \<noteq> None"
    by simp_all
  from gp api_part_in_all_parts [of p] obtain t
    where t: "api_mimeType p = Some t" and tp: "t \<noteq> ''text/plain''"
    by (cases "api_mimeType p") auto
  from tp have n: "\<not> (t = ''text/plain'' \<and> api_has_data p)" by simp
  show ?case
  proof (cases "api_parts p = None")
    case True
    then have nn: "\<not> api_parts p \<noteq> None" by simp
    from "3.IH"(3) [OF t n nn gr "3.prems"(2)] t tp True show ?thesis by simp
  next
    case False
    from "3.IH"(1) [OF t n False gp]
    have e: "extract_text_from_api_payload dec p = Inr []" .
    have "\<not> ([]::string) \<noteq> []" by simp
    from "3.IH"(2) [OF t n False e this gr refl] e t tp False show ?thesis by simp
  qed
qed

lemma api_no_plain_dichotomy:
  "(\<forall>q\<in>set (api_all_parts p). api_mimeType q \<noteq> Some ''text/plain'') \<Longrightarrow>
     extract_text_from_api_payload dec p = Inr [] \<or>
     extract_text_from_api_payload dec p = Inl (KeyError ''mimeType'')"
  "(\<forall>c\<in>set ps. \<forall>q\<in>set (api_all_parts c). api_mimeType q \<noteq> Some ''text/plain'') \<Longrightarrow>
     acc = [] \<Longrightarrow>
     api_parts_loop dec acc ps = Inr [] \<or> api_parts_loop dec acc ps = Inl (KeyError ''mimeType'')"
proof (induction dec p and dec acc ps rule: extract_text_from_api_payload_api_parts_loop.induct)
  case (1 dec mt hs b ps)
  show ?case
  proof (cases ps)
    case None
    with "1.prems" show ?thesis by (auto split: option.splits)
  next
    case (Some cs)
    from "1.prems" Some
    have "\<forall>c\<in>set cs. \<forall>q\<in>set (api_all_parts c). api_mimeType q \<noteq> Some ''text/plain''"
      by auto
    from "1.IH" [OF Some this refl] Some show ?thesis by simp
  qed
next
  case (2 dec body_text)
  then show ?case by simp
next
  case (3 dec body_text p rest)
  from "3.prems"(1)
  have gp: "\<forall>q\<in>set (api_all_parts p). api_mimeType q \<noteq> Some ''text/plain''"
    and gr: "\<forall>c\<in>set rest. \<forall>q\<in>set (api_all_parts c). api_mimeType q \<noteq> Some ''text/plain''"
    by simp_all
  show ?case
  proof (cases "api_mimeType p")
    case None
    then show ?thesis by simp
  next
    case (Some t)
    from gp api_part_in_all_parts [of p] Some have tp: "t \<noteq> ''text/plain''" by auto
    then have n: "\<not> (t = ''text/plain'' \<and> api_has_data p)" by simp
    show ?thesis
    proof (cases "api_parts p = None")
      case True
      then have nn: "\<not> api_parts p \<noteq> None" by simp
      from "3.IH"(3) [OF Some n nn gr "3.prems"(2)] Some tp True show ?thesis by simp
    next
      case False
      from "3.IH"(1) [OF Some n False gp]
      consider "extract_text_from_api_payload dec p = Inr []"
        | "extract_text_from_api_payload dec p = Inl (KeyError ''mimeType'')"
        by blast
      then show ?thesis
      proof cases
        case 1
        have "\<not> ([]::string) \<noteq> []" by simp
        from "3.IH"(2) [OF Some n False 1 this gr refl] 1 Some tp False
        show ?thesis by simp
      next
        case 2
        with Some tp False show ?thesis by simp
      qed
    qed
  qed
qed

text \<open>
  C6 (amended).  For a payload tree with no part tagged \<open>text/plain\<close> anywhere, in
  which every part has a \<open>mimeType\<close>, the body is the empty string and nothing is
  raised, whatever the decoder does.  Without the second condition the result is the
  empty string or the \<open>KeyError\<close> of the missing \<open>mimeType\<close>, and nothing else.  A
  message that is \<open>None\<close> or has no payload has the empty body.
\<close>

theorem no_plain_text_empty_body:
  "((\<forall>q\<in>set (api_all_parts p). api_mimeType q \<noteq> Some ''text/plain'') \<and>
    (\<forall>q\<in>set (api_all_parts p). api_mimeType q \<noteq> None) \<longrightarrow>
      get_api_message_body dec (Some \<lparr>api_payload = Some p\<rparr>) = Inr [])
   \<and> ((\<forall>q\<in>set (api_all_parts p1). api_mimeType q \<noteq> Some ''text/plain'') \<longrightarrow>
      get_api_message_body dec (Some \<lparr>api_payload = Some p1\<rparr>) = Inr [] \<or>
      get_api_message_body dec (Some \<lparr>api_payload = Some p1\<rparr>) = Inl (KeyError ''mimeType''))
   \<and> get_api_message_body dec None = Inr []
   \<and> get_api_message_body dec (Some \<lparr>api_payload = None\<rparr>) = Inr []
   \<and> ((case payload m of None \<Rightarrow> True
        | Some t \<Rightarrow> \<forall>q\<in>set (all_parts t). mimeType q \<noteq> ''text/plain'') \<longrightarrow>
      get_message_body dec (Some m) = Inr [])
   \<and> get_api_message_body dec (Some \<lparr>api_payload = Some (api_of t1)\<rparr>)
      = extract_text_from_payload dec t1"
proof (intro conjI impI)
  assume "(\<forall>q\<in>set (api_all_parts p). api_mimeType q \<noteq> Some ''text/plain'') \<and>
    (\<forall>q\<in>set (api_all_parts p). api_mimeType q \<noteq> None)"
  then have "\<forall>q\<in>set (api_all_parts p).
               api_mimeType q \<noteq> Some ''text/plain'' \<and> api_mimeType q \<noteq> None"
    by blast
  from api_typed_no_plain(1) [OF this, of dec]
  show "get_api_message_body dec (Some \<lparr>api_payload = Some p\<rparr>) = Inr []"
    by (simp add: get_api_message_body_def)
next
  assume "\<forall>q\<in>set (api_all_parts p1). api_mimeType q \<noteq> Some ''text/plain''"
  from api_no_plain_dichotomy(1) [OF this, of dec]
  show "get_api_message_body dec (Some \<lparr>api_payload = Some p1\<rparr>) = Inr [] \<or>
      get_api_message_body dec (Some \<lparr>api_payload = Some p1\<rparr>) = Inl (KeyError ''mimeType'')"
    by (simp add: get_api_message_body_def)
next
  assume "case payload m of None \<Rightarrow> True
        | Some t \<Rightarrow> \<forall>q\<in>set (all_parts t). mimeType q \<noteq> ''text/plain''"
  then show "get_message_body dec (Some m) = Inr []"
    by (auto simp: get_message_body_def no_plain_empty split: option.splits)
qed (simp_all add: get_api_message_body_def api_of_refines)

theorem no_plain_text_empty_body_witness:
  "get_api_message_body demo_decode (Some \<lparr>api_payload = Some (api_of demo_html_tree)\<rparr>) = Inr []
   \<and> get_message_body demo_decode (Some (demo_message\<lparr>payload := Some demo_html_tree\<rparr>))
     = Inr []"
  using no_plain_text_empty_body
    [where p = "api_of demo_html_tree" and ?p1.0 = "api_of demo_html_tree"
       and dec = demo_decode and m = "demo_message\<lparr>payload := Some demo_html_tree\<rparr>"
       and ?t1.0 = demo_html_tree]
  by (simp add: demo_message_def demo_html_tree_def)

text \<open>
  C6 as stated fails: the tree has no part tagged \<open>text/plain\<close>, its second part has
  no \<open>mimeType\<close>, and the extraction raises \<open>KeyError\<close>.
\<close>

theorem missing_mimeType_counterexample:
  "Some ''text/plain'' \<notin> set (map api_mimeType (api_all_parts untyped_tree))
   \<and> get_api_message_body demo_decode (Some \<lparr>api_payload = Some untyped_tree\<rparr>)
     = Inl (KeyError ''mimeType'')"
  by (simp add: untyped_tree_def get_api_message_body_def api_has_data_def)

section \<open>Credential construction\<close>

lemma env_key_base_url:
  "map upper_char (str_replace ''/'' ''_'' (str_replace ''f/secrets/'' []
     ''f/secrets/nango/nango_base_url'')) = ''NANGO_NANGO_BASE_URL''"
  by code_simp

lemma env_key_secret_key:
  "map upper_char (str_replace ''/'' ''_'' (str_replace ''f/secrets/'' []
     ''f/secrets/nango/nango_secret_key'')) = ''NANGO_NANGO_SECRET_KEY''"
  by code_simp

lemma demo_fetch:
  "get_connection_credentials demo_externals w c k = (Inr demo_response, w @ [''broker''])"
  by (simp add: get_connection_credentials_def get_variable_def env_key_base_url
      env_key_secret_key demo_externals_def truthy_str_def)



lemma demo_fields:
  "environ demo_externals = map_of [(''NANGO_NANGO_BASE_URL'', ''https://broker.test''),
     (''NANGO_NANGO_SECRET_KEY'', ''secret''), (''GMAIL_CONNECTION_ID'', ''conn-1'')]"
  "build demo_externals = (\<lambda>w c. (Inr demo_service, w @ [''build'']))"
  "b64_utf8_decode demo_externals = demo_decode"
  by (simp_all add: demo_externals_def)

lemma demo_v2:
  "authenticate_gmail_with_nango_v2 demo_externals w c k
     = (Inr demo_service, w @ [''broker'', ''build''])"
  by (simp add: authenticate_gmail_with_nango_v2_def v2_try_def demo_fetch demo_response_def
      credentials_v2_def select_tokens_v2_def has_key_def credential_of_tokens_def demo_fields)

lemma demo_client:
  "get_gmail_client demo_externals no_client w
     = (Inr demo_service,
        \<lparr>gmail_client = Some demo_service, gmail_service = Some demo_service\<rparr>,
        w @ [''broker'', ''build''])"
  by (simp add: get_gmail_client_def no_client_def demo_v2 truthy_str_def demo_fields)

lemma demo_service_fields:
  "messages_list demo_service = (\<lambda>w q n. (Inr \<lparr>messages = Some [\<lparr>ref_id = ''m1''\<rparr>]\<rparr>, w @ [''list'']))"
  "messages_get demo_service = (\<lambda>w i. (Inr demo_message, w @ [''get'']))"
  "messages_delete demo_service =
     (\<lambda>w i. if i = ''id1'' then (Inr (), w @ [''delete''])
             else (Inl (External ''HttpError 404''), w @ [''delete'']))"
  by (simp_all add: demo_service_def)

section \<open>The tool layer\<close>






lemma failing_service_fields:
  "messages_list failing_service = (\<lambda>w q n. (Inl (External ''HttpError 500''), w @ [''list'']))"
  "messages_get failing_service = (\<lambda>w i. (Inl (External ''HttpError 500''), w @ [''get'']))"
  by (simp_all add: failing_service_def demo_service_def)

lemma get_client_cached:
  "get_gmail_client X \<lparr>gmail_client = Some c, gmail_service = s\<rparr> w
     = (Inr c, \<lparr>gmail_client = Some c, gmail_service = s\<rparr>, w)"
  by (simp add: get_gmail_client_def)

text \<open>
  When the remote list call raises, \<open>list_messages\<close> returns the empty list and the
  tool answers as for a mailbox with no matching message.
\<close>

lemma list_failure_swallowed:
  "messages_list failing_service [] [] 10 = (Inl (External ''HttpError 500''), [''list''])
   \<and> gmail_list_messages demo_externals
       \<lparr>gmail_client = Some failing_service, gmail_service = Some failing_service\<rparr> [] [] 10
     = ([(''success'', RBool True), (''count'', RInt 0), (''messages'', RDetails []),
         (''message'', RStr ''No messages found'')],
        \<lparr>gmail_client = Some failing_service, gmail_service = Some failing_service\<rparr>,
        [''list''])"
  by (simp add: gmail_list_messages_def get_client_cached list_messages_def
      failing_service_fields)

lemma str_nat_small:
  "str_nat (Suc 0) = ''1''" "str_nat (Suc (Suc 0)) = ''2''" "str_nat 0 = ''0''"
  by (simp_all add: str_nat.simps)

lemma delete_loop_counts:
  "delete_loop gmail w ids n f = ((n', f'), w') \<Longrightarrow>
     n' + length f' = n + length f + length ids \<and> set f' \<subseteq> set f \<union> set ids"
proof (induction ids arbitrary: w n f)
  case Nil
  then show ?case by auto
next
  case (Cons i rest)
  obtain ok w1 where d: "delete_message gmail w i = (ok, w1)"
    by (cases "delete_message gmail w i")
  show ?case
  proof (cases ok)
    case True
    with Cons.prems d have "delete_loop gmail w1 rest (n + 1) f = ((n', f'), w')" by simp
    from Cons.IH [OF this] show ?thesis by auto
  next
    case False
    with Cons.prems d have "delete_loop gmail w1 rest n (f @ [i]) = ((n', f'), w')" by simp
    from Cons.IH [OF this] show ?thesis by auto
  qed
qed

text \<open>
  C8.  For a batch of two valid ids of which the first is deleted and the second fails
  remotely, the response has \<open>success: True\<close>, \<open>deleted: 1\<close> and
  \<open>failed_ids: [id2]\<close> (with \<open>total_requested\<close>, \<open>message\<close> and \<open>warning\<close>); the
  same holds with the failure first, so a failure does not end the batch; and for every
  batch the loop counts each id once, as deleted or as failed.
\<close>

theorem batch_delete_partial_failure:
  "(id1 \<noteq> [] \<and> id2 \<noteq> [] \<and> get_gmail_client X g w = (Inr gmail, g1, w1) \<and>
      messages_delete gmail w1 id1 = (Inr (), w2) \<and>
      messages_delete gmail w2 id2 = (Inl e, w3) \<longrightarrow>
      gmail_delete_messages X g w [id1, id2] =
        ([(''success'', RBool True), (''deleted'', RInt 1), (''total_requested'', RInt 2),
          (''message'', RStr ''Deleted 1/2 messages''),
          (''failed_ids'', RStrs [id2]),
          (''warning'', RStr ''Some messages could not be deleted'')], g1, w3))
   \<and> (ia \<noteq> [] \<and> ib \<noteq> [] \<and> get_gmail_client Xa ga wa = (Inr gmaila, ga1, wa1) \<and>
      messages_delete gmaila wa1 ia = (Inl ea, wa2) \<and>
      messages_delete gmaila wa2 ib = (Inr (), wa3) \<longrightarrow>
      gmail_delete_messages Xa ga wa [ia, ib] =
        ([(''success'', RBool True), (''deleted'', RInt 1), (''total_requested'', RInt 2),
          (''message'', RStr ''Deleted 1/2 messages''),
          (''failed_ids'', RStrs [ia]),
          (''warning'', RStr ''Some messages could not be deleted'')], ga1, wa3))
   \<and> (delete_loop gmailb wb ids 0 [] = ((n, failed), wb') \<longrightarrow>
      n + length failed = length ids \<and> set failed \<subseteq> set ids)"
proof (intro conjI impI)
  assume "delete_loop gmailb wb ids 0 [] = ((n, failed), wb')"
  from delete_loop_counts [OF this] show "n + length failed = length ids" by simp
next
  assume "delete_loop gmailb wb ids 0 [] = ((n, failed), wb')"
  from delete_loop_counts [OF this] show "set failed \<subseteq> set ids" by simp
qed (simp_all add: gmail_delete_messages_def validate_message_id_def delete_message_def
       str_nat_small)

lemma search_details_length:
  "length (fst (search_details gmail w ms acc)) \<le> length acc + length ms"
proof (induction ms arbitrary: w acc)
  case Nil
  then show ?case by simp
next
  case (Cons msg rest)
  obtain m w1 where g: "get_message gmail w (ref_id msg) = (m, w1)"
    by (cases "get_message gmail w (ref_id msg)")
  show ?case
  proof (cases "falsy_message m")
    case True
    with g Cons.IH [of w1 acc] show ?thesis by simp
  next
    case False
    with g Cons.IH [of w1 "acc @ [search_entry msg (the m)]"] show ?thesis by simp
  qed
qed

text \<open>
  C10.  \<open>search_messages\<close> calls the remote list with \<open>maxResults = 10\<close> whatever
  the tool's \<open>max_results\<close> is.  With a mail service that returns no more messages
  than that limit, the count of \<open>gmail_search_messages\<close> is at most
  \<open>min(max_results, 10)\<close> for every \<open>max_results\<close> from 1 to 100, and the response
  for \<open>max_results = 100\<close> is the one for \<open>max_results = 10\<close>.
\<close>

theorem search_returns_at_most_ten:
  assumes bounds: "1 \<le> max_results a" "max_results a \<le> 100"
    and client: "get_gmail_client X g w = (Inr gmail, g1, w1)"
    and limit: "\<And>q r w'. messages_list gmail w1 q 10 = (Inr r, w') \<Longrightarrow>
                  (case messages r of None \<Rightarrow> True | Some ms \<Rightarrow> length ms \<le> 10)"
  shows "\<exists>c. map_of (fst (gmail_search_messages X g w a)) ''count'' = Some (RInt c)
             \<and> c \<le> min (max_results a) 10
             \<and> gmail_search_messages X g w (a\<lparr>max_results := 100\<rparr>)
               = gmail_search_messages X g w (a\<lparr>max_results := 10\<rparr>)"
proof -
  let ?q = "build_query (sender a) (subject a) (after_date a) (has_attachment a) (is_unread a)"
  obtain msgs w2 where s: "list_messages gmail w1 ?q 10 = (msgs, w2)"
    by (cases "list_messages gmail w1 ?q 10")
  have len: "length msgs \<le> 10"
  proof (cases "messages_list gmail w1 ?q 10")
    case (Pair res w')
    show ?thesis
    proof (cases res)
      case (Inl e)
      with Pair s show ?thesis by (simp add: list_messages_def)
    next
      case (Inr r)
      with Pair limit [of ?q r w'] s show ?thesis
        by (auto simp: list_messages_def split: option.splits)
    qed
  qed
  show ?thesis
  proof (cases "msgs = []")
    case True
    with bounds client s show ?thesis
      by (simp add: gmail_search_messages_def search_messages_def)
  next
    case False
    obtain detailed w3 where d:
      "search_details gmail w2 (take (nat (max_results a)) msgs) [] = (detailed, w3)"
      by (cases "search_details gmail w2 (take (nat (max_results a)) msgs) []")
    have "length detailed \<le> length (take (nat (max_results a)) msgs)"
      using search_details_length [of gmail w2 "take (nat (max_results a)) msgs" "[]"] d
      by simp
    with len bounds have c: "int (length detailed) \<le> min (max_results a) 10"
      by auto
    have same: "take 100 msgs = take 10 msgs" using len by simp
    from bounds client s False d c same show ?thesis
      by (simp add: gmail_search_messages_def search_messages_def search_criteria_def)
  qed
qed

section \<open>Remote failures at the tool boundary\<close>


















section \<open>The theorems at concrete inputs\<close>














theorem batch_delete_partial_failure_witness:
  "gmail_delete_messages demo_externals no_client [] [''id1'', ''id2''] =
     ([(''success'', RBool True), (''deleted'', RInt 1), (''total_requested'', RInt 2),
       (''message'', RStr ''Deleted 1/2 messages''), (''failed_ids'', RStrs [''id2'']),
       (''warning'', RStr ''Some messages could not be deleted'')],
      \<lparr>gmail_client = Some demo_service, gmail_service = Some demo_service\<rparr>,
      [''broker'', ''build'', ''delete'', ''delete''])
   \<and> gmail_delete_messages demo_externals no_client [] [''id0'', ''id1''] =
     ([(''success'', RBool True), (''deleted'', RInt 1), (''total_requested'', RInt 2),
       (''message'', RStr ''Deleted 1/2 messages''), (''failed_ids'', RStrs [''id0'']),
       (''warning'', RStr ''Some messages could not be deleted'')],
      \<lparr>gmail_client = Some demo_service, gmail_service = Some demo_service\<rparr>,
      [''broker'', ''build'', ''delete'', ''delete''])
   \<and> delete_loop demo_service [] [''id1'', ''id2'', ''id1''] 0 [] =
       ((2, [''id2'']), [''delete'', ''delete'', ''delete''])"
  using batch_delete_partial_failure
    [where ?id1.0 = "''id1''" and ?id2.0 = "''id2''" and X = demo_externals and g = no_client
       and w = "[]" and gmail = demo_service
       and ?g1.0 = "\<lparr>gmail_client = Some demo_service, gmail_service = Some demo_service\<rparr>"
       and ?w1.0 = "[''broker'', ''build'']" and ?w2.0 = "[''broker'', ''build'', ''delete'']"
       and e = "External ''HttpError 404''"
       and ?w3.0 = "[''broker'', ''build'', ''delete'', ''delete'']"
       and ia = "''id0''" and ib = "''id1''" and Xa = demo_externals and ga = no_client
       and wa = "[]" and gmaila = demo_service
       and ?ga1.0 = "\<lparr>gmail_client = Some demo_service, gmail_service = Some demo_service\<rparr>"
       and ?wa1.0 = "[''broker'', ''build'']" and ea = "External ''HttpError 404''"
       and ?wa2.0 = "[''broker'', ''build'', ''delete'']"
       and ?wa3.0 = "[''broker'', ''build'', ''delete'', ''delete'']"
       and gmailb = demo_service and wb = "[]" and ids = "[''id1'', ''id2'', ''id1'']"
       and n = 2 and failed = "[''id2'']" and wb' = "[''delete'', ''delete'', ''delete'']"]
  by (simp add: demo_client demo_service_fields delete_message_def)

theorem search_returns_at_most_ten_witness:
  "\<exists>c. map_of (fst (gmail_search_messages demo_externals no_client []
            \<lparr>sender = Some ''a@b.com'', subject = None, after_date = None, before_date = None,
             has_attachment = False, is_unread = True, max_results = 50\<rparr>)) ''count''
          = Some (RInt c)
        \<and> c \<le> 10
        \<and> gmail_search_messages demo_externals no_client []
             \<lparr>sender = Some ''a@b.com'', subject = None, after_date = None, before_date = None,
              has_attachment = False, is_unread = True, max_results = 100\<rparr>
          = gmail_search_messages demo_externals no_client []
             \<lparr>sender = Some ''a@b.com'', subject = None, after_date = None, before_date = None,
              has_attachment = False, is_unread = True, max_results = 10\<rparr>"
  using search_returns_at_most_ten
    [where a = "\<lparr>sender = Some ''a@b.com'', subject = None, after_date = None,
         before_date = None, has_attachment = False, is_unread = True, max_results = 50\<rparr>"
       and X = demo_externals and g = no_client and w = "[]" and gmail = demo_service
       and ?g1.0 = "\<lparr>gmail_client = Some demo_service, gmail_service = Some demo_service\<rparr>"
       and ?w1.0 = "[''broker'', ''build'']"]
  by (simp add: demo_client demo_service_fields)

end
